theory Spec2Isabelle
  imports Main
begin

section \<open>JavaScript values\<close>

text \<open>
  The values that flow through \<^verbatim>\<open>Cloud.js\<close>: what \<^verbatim>\<open>JSON.parse\<close> produces, plus
  \<^verbatim>\<open>undefined\<close>. An object is the list of its own enumerable properties; the first
  binding of a key is the property's value, and its prototype is \<^verbatim>\<open>Object.prototype\<close>.
  Numbers are restricted to integers (nothing here does arithmetic) and functions are
  not values, so no property of a value is callable unless it is inherited.
\<close>

datatype jsval =
    JUndefined
  | JNull
  | JBool bool
  | JNum int
  | JStr string
  | JArr "jsval list"
  | JObj "(string \<times> jsval) list"

text \<open>The \<^verbatim>\<open>typeof\<close> operator: \<^verbatim>\<open>null\<close> and arrays are \<^verbatim>\<open>'object'\<close>.\<close>

primrec typeof :: "jsval \<Rightarrow> string" where
  "typeof JUndefined = ''undefined''"
| "typeof JNull = ''object''"
| "typeof (JBool b) = ''boolean''"
| "typeof (JNum n) = ''number''"
| "typeof (JStr s) = ''string''"
| "typeof (JArr xs) = ''object''"
| "typeof (JObj kvs) = ''object''"

text \<open>ToBoolean, as used by \<^verbatim>\<open>if (v)\<close>, \<^verbatim>\<open>v && w\<close> and \<^verbatim>\<open>v || w\<close>.\<close>

primrec truthy :: "jsval \<Rightarrow> bool" where
  "truthy JUndefined = False"
| "truthy JNull = False"
| "truthy (JBool b) = b"
| "truthy (JNum n) = (n \<noteq> 0)"
| "truthy (JStr s) = (s \<noteq> [])"
| "truthy (JArr xs) = True"
| "truthy (JObj kvs) = True"

text \<open>
  What a \<^verbatim>\<open>throw\<close> carries. \<^verbatim>\<open>ParseError.INVALID_JSON\<close> is a constant of a module that is
  not part of these sources, so the code is kept symbolic. The message of a
  \<^verbatim>\<open>TypeError\<close> that the engine itself raises differs from engine to engine; the ones
  here follow V8, without the name of the variable.
\<close>

datatype parse_error_code = INVALID_JSON | OtherCode int

datatype exn =
    TypeError string
  | ParseError parse_error_code string
  | Raised jsval

text \<open>The decimal name of an array index, as \<^verbatim>\<open>Object.keys\<close> spells it.\<close>

fun index_key :: "nat \<Rightarrow> string" where
  "index_key n =
     (if n < 10 then [''0123456789'' ! n]
      else index_key (n div 10) @ [''0123456789'' ! (n mod 10)])"

declare index_key.simps [simp del]

text \<open>
  \<^verbatim>\<open>Object.keys(v)\<close>: the own enumerable string keys. It throws on \<^verbatim>\<open>null\<close> and
  \<^verbatim>\<open>undefined\<close>. The source only takes the length of the result.
\<close>

primrec Object_keys :: "jsval \<Rightarrow> exn + string list" where
  "Object_keys JUndefined = Inl (TypeError ''Cannot convert undefined or null to object'')"
| "Object_keys JNull = Inl (TypeError ''Cannot convert undefined or null to object'')"
| "Object_keys (JBool b) = Inr []"
| "Object_keys (JNum n) = Inr []"
| "Object_keys (JStr s) = Inr (map index_key [0..<length s])"
| "Object_keys (JArr xs) = Inr (map index_key [0..<length xs])"
| "Object_keys (JObj kvs) = Inr (remdups (map fst kvs))"

text \<open>
  The method call \<^verbatim>\<open>v.hasOwnProperty(k)\<close>. The method is looked up on the value first:
  an object with an own property named \<^verbatim>\<open>hasOwnProperty\<close> shadows the inherited method,
  and since no value here is a function the call then throws. Arrays and strings own
  their indices and \<^verbatim>\<open>length\<close>; a boxed boolean or number owns nothing.
\<close>

primrec hasOwnProperty :: "jsval \<Rightarrow> string \<Rightarrow> exn + bool" where
  "hasOwnProperty JUndefined k = Inl (TypeError ''Cannot read properties of undefined'')"
| "hasOwnProperty JNull k = Inl (TypeError ''Cannot read properties of null'')"
| "hasOwnProperty (JBool b) k = Inr False"
| "hasOwnProperty (JNum n) k = Inr False"
| "hasOwnProperty (JStr s) k =
     Inr (k = ''length'' \<or> k \<in> set (map index_key [0..<length s]))"
| "hasOwnProperty (JArr xs) k =
     Inr (k = ''length'' \<or> k \<in> set (map index_key [0..<length xs]))"
| "hasOwnProperty (JObj kvs) k =
     (if ''hasOwnProperty'' \<in> set (map fst kvs)
      then Inl (TypeError ''hasOwnProperty is not a function'')
      else Inr (k \<in> set (map fst kvs)))"

text \<open>
  The property read \<^verbatim>\<open>v.k\<close>, for the four keys the source reads (\<^verbatim>\<open>useMasterKey\<close>,
  \<^verbatim>\<open>sessionToken\<close>, \<^verbatim>\<open>context\<close>, \<^verbatim>\<open>result\<close>): none of them is an index, \<^verbatim>\<open>length\<close> or a
  member of a built-in prototype, so a read that finds no own property gives
  \<^verbatim>\<open>undefined\<close>. Reading a property of \<^verbatim>\<open>null\<close> or \<^verbatim>\<open>undefined\<close> throws.
\<close>

primrec get_prop :: "jsval \<Rightarrow> string \<Rightarrow> exn + jsval" where
  "get_prop JUndefined k = Inl (TypeError ''Cannot read properties of undefined'')"
| "get_prop JNull k = Inl (TypeError ''Cannot read properties of null'')"
| "get_prop (JBool b) k = Inr JUndefined"
| "get_prop (JNum n) k = Inr JUndefined"
| "get_prop (JStr s) k = Inr JUndefined"
| "get_prop (JArr xs) k = Inr JUndefined"
| "get_prop (JObj kvs) k = Inr (case map_of kvs k of Some v \<Rightarrow> v | None \<Rightarrow> JUndefined)"

section \<open>Promises, requests and the collaborators\<close>

text \<open>
  A promise is represented by the way it settles. A call of an entry point either throws
  synchronously or returns a promise.
\<close>

datatype promise = Resolved jsval | Rejected exn

datatype completion = Throws exn | Returns promise

text \<open>
  \<^verbatim>\<open>p.then(f)\<close> with a callback that throws (\<open>Inl\<close>) or returns \<^verbatim>\<open>Promise.resolve(x)\<close>
  (\<open>Inr x\<close>): a rejection of \<open>p\<close> passes through untouched.
\<close>

primrec promise_then :: "promise \<Rightarrow> (jsval \<Rightarrow> exn + jsval) \<Rightarrow> promise" where
  "promise_then (Resolved v) f = (case f v of Inl e \<Rightarrow> Rejected e | Inr x \<Rightarrow> Resolved x)"
| "promise_then (Rejected e) f = Rejected e"

text \<open>One call of \<^verbatim>\<open>RESTController.request(method, path, body, options)\<close>.\<close>

record request =
  req_method :: string
  req_path :: string
  req_body :: jsval
  req_options :: jsval

text \<open>
  The transport answers a request with a promise. The requests that have been issued
  are kept in a log, which every operation takes and returns; an operation's result is
  its completion together with the new log.
\<close>

type_synonym rest_controller = "request \<Rightarrow> promise"

type_synonym 'a io = "request list \<Rightarrow> 'a \<times> request list"

text \<open>
  The modules \<^verbatim>\<open>encode\<close> and \<^verbatim>\<open>decode\<close> are imported, not defined, by these sources:
  they are parameters of the model. Either may throw.
\<close>

type_synonym encoder = "jsval \<Rightarrow> bool \<Rightarrow> exn + jsval"

type_synonym decoder = "jsval \<Rightarrow> exn + jsval"

text \<open>
  A cloud controller: the three methods the entry points call. A method reaches the
  transport through \<^verbatim>\<open>CoreManager.getRESTController()\<close>; here the registry's REST
  controller is handed to it. The entry points only ever pass a string as the name.
\<close>

record cloud_controller =
  ctl_run :: "rest_controller \<Rightarrow> string \<Rightarrow> jsval \<Rightarrow> jsval \<Rightarrow> completion io"
  ctl_getJobsData :: "rest_controller \<Rightarrow> jsval \<Rightarrow> completion io"
  ctl_startJob :: "rest_controller \<Rightarrow> string \<Rightarrow> jsval \<Rightarrow> jsval \<Rightarrow> completion io"

text \<open>
  Modelled from the spec: \<^verbatim>\<open>CoreManager\<close>, the process-wide registry, is not part of these
  sources. It holds one controller per role; \<^verbatim>\<open>setCloudController\<close> replaces the cloud
  controller unconditionally and \<^verbatim>\<open>getCloudController\<close> reads it back.
\<close>

record core_manager =
  RESTController :: rest_controller
  CloudController :: cloud_controller

definition getRESTController :: "core_manager \<Rightarrow> rest_controller" where
  "getRESTController cm = RESTController cm"

definition getCloudController :: "core_manager \<Rightarrow> cloud_controller" where
  "getCloudController cm = CloudController cm"

definition setCloudController :: "cloud_controller \<Rightarrow> core_manager \<Rightarrow> core_manager" where
  "setCloudController controller cm = cm\<lparr>CloudController := controller\<rparr>"

text \<open>
  \<^verbatim>\<open>new ParseQuery(className).get(id, options)\<close>: the query module is imported, not
  defined, by these sources, so it is a parameter. Like every module it can see the
  registry.
\<close>

type_synonym query_get = "core_manager \<Rightarrow> string \<Rightarrow> jsval \<Rightarrow> jsval \<Rightarrow> completion io"

section \<open>The entry points\<close>

text \<open>Line 37: \<^verbatim>\<open>options = options || {}\<close>.\<close>

definition or_empty :: "jsval \<Rightarrow> jsval" where
  "or_empty options = (if truthy options then options else JObj [])"

text \<open>Lines 43 to 52 of \<^verbatim>\<open>run\<close>: the options that are sent on.\<close>

definition run_requestOptions :: "jsval \<Rightarrow> exn + jsval" where
  "run_requestOptions options =
     (case get_prop options ''useMasterKey'' of Inl e \<Rightarrow> Inl e | Inr useMasterKey \<Rightarrow>
     (case get_prop options ''sessionToken'' of Inl e \<Rightarrow> Inl e | Inr sessionToken \<Rightarrow>
     (case get_prop options ''context'' of Inl e \<Rightarrow> Inl e | Inr context \<Rightarrow>
        Inr (JObj
          ((if truthy useMasterKey then [(''useMasterKey'', useMasterKey)] else []) @
           (if truthy sessionToken then [(''sessionToken'', sessionToken)] else []) @
           (if truthy context \<and> typeof context = ''object''
            then [(''context'', context)] else []))))))"

definition run :: "core_manager \<Rightarrow> jsval \<Rightarrow> jsval \<Rightarrow> jsval \<Rightarrow> completion io" where
  "run cm name data options log =
     (case name of
        JStr s \<Rightarrow>
          if length s = 0
          then (Throws (TypeError ''Cloud function name must be a string.''), log)
          else (case run_requestOptions (or_empty options) of
                  Inl e \<Rightarrow> (Throws e, log)
                | Inr requestOptions \<Rightarrow>
                    ctl_run (getCloudController cm) (getRESTController cm)
                      s data requestOptions log)
      | _ \<Rightarrow> (Throws (TypeError ''Cloud function name must be a string.''), log))"

definition getJobsData :: "core_manager \<Rightarrow> completion io" where
  "getJobsData cm log =
     (let requestOptions = JObj [(''useMasterKey'', JBool True)]
      in ctl_getJobsData (getCloudController cm) (getRESTController cm) requestOptions log)"

definition startJob :: "core_manager \<Rightarrow> jsval \<Rightarrow> jsval \<Rightarrow> completion io" where
  "startJob cm name data log =
     (case name of
        JStr s \<Rightarrow>
          if length s = 0
          then (Throws (TypeError ''Cloud job name must be a string.''), log)
          else (let requestOptions = JObj [(''useMasterKey'', JBool True)]
                in ctl_startJob (getCloudController cm) (getRESTController cm)
                     s data requestOptions log)
      | _ \<Rightarrow> (Throws (TypeError ''Cloud job name must be a string.''), log))"

definition getJobStatus :: "core_manager \<Rightarrow> query_get \<Rightarrow> jsval \<Rightarrow> completion io" where
  "getJobStatus cm ParseQuery_get jobStatusId log =
     ParseQuery_get cm ''_JobStatus'' jobStatusId (JObj [(''useMasterKey'', JBool True)]) log"

section \<open>The default controller\<close>

text \<open>
  Line 114, the test for an invalid reply, with the short-circuit order of \<^verbatim>\<open>&&\<close>:
  \<^verbatim>\<open>typeof res === 'object' && Object.keys(res).length > 0 && !res.hasOwnProperty('result')\<close>.
\<close>

definition invalid_response :: "jsval \<Rightarrow> exn + bool" where
  "invalid_response res =
     (if typeof res = ''object'' then
        (case Object_keys res of
           Inl e \<Rightarrow> Inl e
         | Inr keys \<Rightarrow>
             if length keys > 0 then
               (case hasOwnProperty res ''result'' of
                  Inl e \<Rightarrow> Inl e
                | Inr has \<Rightarrow> Inr (\<not> has))
             else Inr False)
      else Inr False)"

text \<open>Lines 113 to 122: the callback given to \<^verbatim>\<open>request.then\<close>.\<close>

definition run_callback :: "decoder \<Rightarrow> jsval \<Rightarrow> exn + jsval" where
  "run_callback decode res =
     (case invalid_response res of
        Inl e \<Rightarrow> Inl e
      | Inr True \<Rightarrow> Inl (ParseError INVALID_JSON ''The server returned an invalid response.'')
      | Inr False \<Rightarrow>
          (case decode res of
             Inl e \<Rightarrow> Inl e
           | Inr decoded \<Rightarrow>
               (case (if truthy decoded then hasOwnProperty decoded ''result'' else Inr False) of
                  Inl e \<Rightarrow> Inl e
                | Inr True \<Rightarrow> get_prop decoded ''result''
                | Inr False \<Rightarrow> Inr JUndefined)))"

definition DefaultController_run ::
  "encoder \<Rightarrow> decoder \<Rightarrow> rest_controller \<Rightarrow> string \<Rightarrow> jsval \<Rightarrow> jsval \<Rightarrow> completion io" where
  "DefaultController_run encode decode restController name data options log =
     (case encode data True of
        Inl e \<Rightarrow> (Throws e, log)
      | Inr payload \<Rightarrow>
          (let req = \<lparr>req_method = ''POST'', req_path = ''functions/'' @ name,
                      req_body = payload, req_options = options\<rparr>;
               request = restController req
           in (Returns (promise_then request (run_callback decode)), log @ [req])))"

definition DefaultController_getJobsData :: "rest_controller \<Rightarrow> jsval \<Rightarrow> completion io" where
  "DefaultController_getJobsData restController options log =
     (let req = \<lparr>req_method = ''GET'', req_path = ''cloud_code/jobs/data'',
                 req_body = JNull, req_options = options\<rparr>
      in (Returns (restController req), log @ [req]))"

definition DefaultController_startJob ::
  "encoder \<Rightarrow> rest_controller \<Rightarrow> string \<Rightarrow> jsval \<Rightarrow> jsval \<Rightarrow> completion io" where
  "DefaultController_startJob encode restController name data options log =
     (case encode data True of
        Inl e \<Rightarrow> (Throws e, log)
      | Inr payload \<Rightarrow>
          (let req = \<lparr>req_method = ''POST'', req_path = ''jobs/'' @ name,
                      req_body = payload, req_options = options\<rparr>
           in (Returns (restController req), log @ [req])))"

definition DefaultController :: "encoder \<Rightarrow> decoder \<Rightarrow> cloud_controller" where
  "DefaultController encode decode =
     \<lparr>ctl_run = DefaultController_run encode decode,
      ctl_getJobsData = DefaultController_getJobsData,
      ctl_startJob = DefaultController_startJob encode\<rparr>"

text \<open>Line 140: loading the module registers the default controller.\<close>

definition load_Cloud :: "encoder \<Rightarrow> decoder \<Rightarrow> core_manager \<Rightarrow> core_manager" where
  "load_Cloud encode decode cm = setCloudController (DefaultController encode decode) cm"

section \<open>Simulated collaborators\<close>

text \<open>
  Stand-ins for the collaborators, used to run the model on concrete inputs: a transport
  that resolves every request with a fixed reply, a transport that echoes the body of a
  request as the \<^verbatim>\<open>result\<close> of its reply, an encoder and a decoder that leave a
  value as it is, a query collaborator that finds no record, and a mock controller that
  issues no request and resolves every call with a fixed value.
\<close>

definition sim_transport :: "jsval \<Rightarrow> rest_controller" where
  "sim_transport reply req = Resolved reply"

definition echo_transport :: rest_controller where
  "echo_transport req = Resolved (JObj [(''result'', req_body req)])"

definition sim_encode :: encoder where
  "sim_encode v disallowUnsaved = Inr v"

definition sim_decode :: decoder where
  "sim_decode v = Inr v"

definition sim_query :: query_get where
  "sim_query cm className objectId options log =
     (Returns (Rejected (ParseError (OtherCode 101) ''Object not found.'')), log)"

definition mock_run :: "jsval \<Rightarrow> rest_controller \<Rightarrow> string \<Rightarrow> jsval \<Rightarrow> jsval \<Rightarrow> completion io" where
  "mock_run v restController name data options log = (Returns (Resolved v), log)"

definition mock_getJobsData :: "jsval \<Rightarrow> rest_controller \<Rightarrow> jsval \<Rightarrow> completion io" where
  "mock_getJobsData v restController options log = (Returns (Resolved v), log)"

definition mock_controller :: "jsval \<Rightarrow> cloud_controller" where
  "mock_controller v =
     \<lparr>ctl_run = mock_run v, ctl_getJobsData = mock_getJobsData v, ctl_startJob = mock_run v\<rparr>"

definition sim_manager :: "jsval \<Rightarrow> core_manager" where
  "sim_manager reply =
     \<lparr>RESTController = sim_transport reply, CloudController = mock_controller JNull\<rparr>"

definition sim_Cloud :: "jsval \<Rightarrow> core_manager" where
  "sim_Cloud reply = load_Cloud sim_encode sim_decode (sim_manager reply)"

definition echo_Cloud :: core_manager where
  "echo_Cloud = load_Cloud sim_encode sim_decode
     \<lparr>RESTController = echo_transport, CloudController = mock_controller JNull\<rparr>"

section \<open>The registry and the options that are sent on\<close>

lemma registry_simps:
  "getRESTController (load_Cloud encode decode cm) = getRESTController cm"
  "getCloudController (load_Cloud encode decode cm) = DefaultController encode decode"
  "getCloudController (setCloudController c cm) = c"
  "getRESTController (setCloudController c cm) = getRESTController cm"
  by (simp_all add: load_Cloud_def setCloudController_def getRESTController_def
      getCloudController_def)

lemma DefaultController_simps:
  "ctl_run (DefaultController encode decode) = DefaultController_run encode decode"
  "ctl_getJobsData (DefaultController encode decode) = DefaultController_getJobsData"
  "ctl_startJob (DefaultController encode decode) = DefaultController_startJob encode"
  by (simp_all add: DefaultController_def)

text \<open>After line 37 the options are truthy, so none of the three reads can throw.\<close>

lemma get_prop_truthy:
  "truthy v \<Longrightarrow> \<exists>x. get_prop v k = Inr x"
  by (cases v) simp_all

lemma truthy_or_empty: "truthy (or_empty options)"
  by (simp add: or_empty_def)

lemma run_requestOptions_total:
  "\<exists>kvs. run_requestOptions (or_empty options) = Inr (JObj kvs)"
proof -
  obtain a b c where
    "get_prop (or_empty options) ''useMasterKey'' = Inr a"
    "get_prop (or_empty options) ''sessionToken'' = Inr b"
    "get_prop (or_empty options) ''context'' = Inr c"
    using get_prop_truthy [OF truthy_or_empty] by metis
  then show ?thesis by (simp add: run_requestOptions_def)
qed

text \<open>The simulated registry, once the module is loaded.\<close>

lemma sim_Cloud_simps:
  "getRESTController (sim_Cloud reply) = sim_transport reply"
  "getCloudController (sim_Cloud reply) = DefaultController sim_encode sim_decode"
  by (simp_all add: sim_Cloud_def registry_simps)
    (simp add: sim_manager_def getRESTController_def)

text \<open>A call of \<^verbatim>\<open>run\<close> that gets past the name check and the encoder.\<close>

lemma run_default:
  assumes "s \<noteq> []" and "encode data True = Inr payload"
    and "run_requestOptions (or_empty options) = Inr requestOptions"
  shows "fst (run (load_Cloud encode decode cm) (JStr s) data options log) =
     Returns (promise_then
       (getRESTController cm
          \<lparr>req_method = ''POST'', req_path = ''functions/'' @ s, req_body = payload,
           req_options = requestOptions\<rparr>)
       (run_callback decode))"
  using assms
  by (simp add: run_def registry_simps DefaultController_simps DefaultController_run_def Let_def)

lemma run_sim_Cloud:
  "s \<noteq> [] \<Longrightarrow> fst (run (sim_Cloud reply) (JStr s) data options log) =
     Returns (promise_then (Resolved reply) (run_callback sim_decode))"
proof -
  assume s: "s \<noteq> []"
  obtain kvs where ro: "run_requestOptions (or_empty options) = Inr (JObj kvs)"
    using run_requestOptions_total by blast
  have enc: "sim_encode data True = Inr data" by (simp add: sim_encode_def)
  have "fst (run (load_Cloud sim_encode sim_decode (sim_manager reply)) (JStr s) data options log) =
     Returns (promise_then
       (getRESTController (sim_manager reply)
          \<lparr>req_method = ''POST'', req_path = ''functions/'' @ s, req_body = data,
           req_options = JObj kvs\<rparr>)
       (run_callback sim_decode))"
    using s enc ro by (rule run_default)
  then show ?thesis
    by (simp add: sim_Cloud_def sim_manager_def getRESTController_def sim_transport_def)
qed

section \<open>The requests that are issued\<close>

text \<open>
  Claim C7. With the default controller registered, a call of \<^verbatim>\<open>run\<close> with a non-empty
  string name and a payload that \<^verbatim>\<open>encode(data, true)\<close> accepts adds exactly one request
  to the log: method POST, path \<^verbatim>\<open>functions/<name>\<close>, the encoded payload as its body and
  the normalized options as its options.
\<close>

theorem run_issues_one_request:
  assumes "s \<noteq> []" and "encode data True = Inr payload"
  shows "\<exists>requestOptions.
     run_requestOptions (or_empty options) = Inr requestOptions \<and>
     snd (run (load_Cloud encode decode cm) (JStr s) data options log) =
       log @ [\<lparr>req_method = ''POST'', req_path = ''functions/'' @ s, req_body = payload,
               req_options = requestOptions\<rparr>]"
proof -
  obtain kvs where ro: "run_requestOptions (or_empty options) = Inr (JObj kvs)"
    using run_requestOptions_total by blast
  with assms show ?thesis
    by (simp add: run_def registry_simps DefaultController_simps
        DefaultController_run_def Let_def)
qed

theorem run_issues_one_request_witness:
  "snd (run (sim_Cloud (JObj [(''result'', JNum 7)])) (JStr ''hello'') (JObj [(''n'', JNum 1)])
        (JObj [(''useMasterKey'', JBool True), (''retry'', JNum 3)]) []) =
     [\<lparr>req_method = ''POST'', req_path = ''functions/hello'', req_body = JObj [(''n'', JNum 1)],
       req_options = JObj [(''useMasterKey'', JBool True)]\<rparr>]"
  using run_issues_one_request [of "''hello''" sim_encode "JObj [(''n'', JNum 1)]" "JObj [(''n'', JNum 1)]"
      "JObj [(''useMasterKey'', JBool True), (''retry'', JNum 3)]"
      sim_decode "sim_manager (JObj [(''result'', JNum 7)])" "[]"]
  by (simp add: sim_encode_def sim_Cloud_def run_requestOptions_def or_empty_def)

text \<open>
  Claim C8. With the default controller registered, \<^verbatim>\<open>startJob\<close> with a non-empty string
  name and an encodable payload adds exactly one request to the log (POST to
  \<^verbatim>\<open>jobs/<name>\<close>, the encoded payload as body, options exactly \<^verbatim>\<open>{useMasterKey: true}\<close>;
  the entry point has no options parameter) and returns the very promise the transport
  gave for that request, whatever it settles to.
\<close>

theorem startJob_request:
  assumes "s \<noteq> []" and "encode data True = Inr payload"
  shows "startJob (load_Cloud encode decode cm) (JStr s) data log =
     (Returns (getRESTController cm
        \<lparr>req_method = ''POST'', req_path = ''jobs/'' @ s, req_body = payload,
         req_options = JObj [(''useMasterKey'', JBool True)]\<rparr>),
      log @ [\<lparr>req_method = ''POST'', req_path = ''jobs/'' @ s, req_body = payload,
         req_options = JObj [(''useMasterKey'', JBool True)]\<rparr>])"
  using assms
  by (simp add: startJob_def registry_simps DefaultController_simps
      DefaultController_startJob_def Let_def)

theorem startJob_request_witness:
  "startJob (sim_Cloud (JStr ''jobStatusId1234'')) (JStr ''myJob'') (JObj [(''n'', JNum 1)]) [] =
     (Returns (Resolved (JStr ''jobStatusId1234'')),
      [\<lparr>req_method = ''POST'', req_path = ''jobs/myJob'', req_body = JObj [(''n'', JNum 1)],
         req_options = JObj [(''useMasterKey'', JBool True)]\<rparr>])"
  using startJob_request [of "''myJob''" sim_encode "JObj [(''n'', JNum 1)]" "JObj [(''n'', JNum 1)]"
      sim_decode "sim_manager (JStr ''jobStatusId1234'')" "[]"]
  by (simp add: sim_encode_def sim_Cloud_def sim_manager_def getRESTController_def sim_transport_def)

text \<open>
  Claim C9. With the default controller registered, every call of \<^verbatim>\<open>getJobsData\<close> adds
  exactly one request to the log (GET, path \<^verbatim>\<open>cloud_code/jobs/data\<close>, body \<^verbatim>\<open>null\<close>, options
  exactly \<^verbatim>\<open>{useMasterKey: true}\<close>; the entry point takes no argument) and returns the very
  promise the transport gave for that request.
\<close>

theorem getJobsData_request:
  "getJobsData (load_Cloud encode decode cm) log =
     (Returns (getRESTController cm
        \<lparr>req_method = ''GET'', req_path = ''cloud_code/jobs/data'', req_body = JNull,
         req_options = JObj [(''useMasterKey'', JBool True)]\<rparr>),
      log @ [\<lparr>req_method = ''GET'', req_path = ''cloud_code/jobs/data'', req_body = JNull,
         req_options = JObj [(''useMasterKey'', JBool True)]\<rparr>])"
  by (simp add: getJobsData_def registry_simps DefaultController_simps
      DefaultController_getJobsData_def Let_def)

section \<open>The name check\<close>

text \<open>
  Claim C5. When the name is not a string or is the empty string, \<^verbatim>\<open>run\<close> and \<^verbatim>\<open>startJob\<close>
  throw their \<^verbatim>\<open>TypeError\<close> synchronously (the call throws, it does not return a rejected
  promise) and leave the request log as it was. When the name is a non-empty string the
  check raises nothing: the call is exactly the call of the registered controller's
  method, and with the default controller the only synchronous throw left is one that
  \<^verbatim>\<open>encode\<close> itself raises.
\<close>

theorem name_check:
  "(typeof name \<noteq> ''string'' \<or> name = JStr [] \<longrightarrow>
      run cm name data options log =
        (Throws (TypeError ''Cloud function name must be a string.''), log) \<and>
      startJob cm name data log =
        (Throws (TypeError ''Cloud job name must be a string.''), log)) \<and>
   (\<forall>s. name = JStr s \<and> s \<noteq> [] \<longrightarrow>
      (\<exists>requestOptions.
         run_requestOptions (or_empty options) = Inr requestOptions \<and>
         run cm name data options log =
           ctl_run (getCloudController cm) (getRESTController cm) s data requestOptions log) \<and>
      startJob cm name data log =
        ctl_startJob (getCloudController cm) (getRESTController cm) s data
          (JObj [(''useMasterKey'', JBool True)]) log \<and>
      (\<forall>e. fst (run (load_Cloud encode decode cm) name data options log) = Throws e
         \<longrightarrow> encode data True = Inl e) \<and>
      (\<forall>e. fst (startJob (load_Cloud encode decode cm) name data log) = Throws e
         \<longrightarrow> encode data True = Inl e))"
proof (intro conjI impI allI)
  assume bad: "typeof name \<noteq> ''string'' \<or> name = JStr []"
  then show "run cm name data options log =
      (Throws (TypeError ''Cloud function name must be a string.''), log)"
    by (cases name) (simp_all add: run_def)
  from bad show "startJob cm name data log =
      (Throws (TypeError ''Cloud job name must be a string.''), log)"
    by (cases name) (simp_all add: startJob_def)
next
  fix s assume ok: "name = JStr s \<and> s \<noteq> []"
  obtain kvs where ro: "run_requestOptions (or_empty options) = Inr (JObj kvs)"
    using run_requestOptions_total by blast
  with ok show "\<exists>requestOptions.
      run_requestOptions (or_empty options) = Inr requestOptions \<and>
      run cm name data options log =
        ctl_run (getCloudController cm) (getRESTController cm) s data requestOptions log"
    by (simp add: run_def)
  from ok show "startJob cm name data log =
      ctl_startJob (getCloudController cm) (getRESTController cm) s data
        (JObj [(''useMasterKey'', JBool True)]) log"
    by (simp add: startJob_def)
  {
    fix e
    assume "fst (run (load_Cloud encode decode cm) name data options log) = Throws e"
    with ok ro show "encode data True = Inl e"
      by (cases "encode data True")
        (simp_all add: run_def registry_simps DefaultController_simps
          DefaultController_run_def Let_def)
  }
  {
    fix e
    assume "fst (startJob (load_Cloud encode decode cm) name data log) = Throws e"
    with ok show "encode data True = Inl e"
      by (cases "encode data True")
        (simp_all add: startJob_def registry_simps DefaultController_simps
          DefaultController_startJob_def Let_def)
  }
qed

theorem name_check_witness:
  "run (sim_Cloud JNull) (JStr []) JNull JUndefined [] =
     (Throws (TypeError ''Cloud function name must be a string.''), []) \<and>
   startJob (sim_Cloud JNull) (JNum 5) JNull [] =
     (Throws (TypeError ''Cloud job name must be a string.''), []) \<and>
   fst (run (sim_Cloud (JObj [(''result'', JNum 7)])) (JStr ''hello'') JNull JUndefined []) =
     Returns (Resolved (JNum 7)) \<and>
   fst (startJob (sim_Cloud (JStr ''id1'')) (JStr ''myJob'') JNull []) =
     Returns (Resolved (JStr ''id1''))"
proof -
  have a: "run (sim_Cloud JNull) (JStr []) JNull JUndefined [] =
     (Throws (TypeError ''Cloud function name must be a string.''), [])"
    using name_check [of "JStr []" "sim_Cloud JNull" JNull JUndefined "[]"] by simp
  have b: "startJob (sim_Cloud JNull) (JNum 5) JNull [] =
     (Throws (TypeError ''Cloud job name must be a string.''), [])"
    using name_check [of "JNum 5" "sim_Cloud JNull" JNull JUndefined "[]"] by simp
  have c: "fst (run (sim_Cloud (JObj [(''result'', JNum 7)])) (JStr ''hello'') JNull JUndefined []) =
     Returns (Resolved (JNum 7))"
    using name_check [of "JStr ''hello''" "sim_Cloud (JObj [(''result'', JNum 7)])"
        JNull JUndefined "[]"]
    by (simp add: run_requestOptions_def or_empty_def sim_Cloud_simps DefaultController_simps
        DefaultController_run_def Let_def sim_encode_def sim_transport_def run_callback_def
        invalid_response_def sim_decode_def)
  have d: "fst (startJob (sim_Cloud (JStr ''id1'')) (JStr ''myJob'') JNull []) =
     Returns (Resolved (JStr ''id1''))"
    using name_check [of "JStr ''myJob''" "sim_Cloud (JStr ''id1'')" JNull JUndefined "[]"]
    by (simp add: sim_Cloud_simps DefaultController_simps
        DefaultController_startJob_def Let_def sim_encode_def sim_transport_def)
  from a b c d show ?thesis by blast
qed

section \<open>The options \<^verbatim>\<open>run\<close> sends on\<close>

text \<open>The test of line 50 holds of the objects other than \<^verbatim>\<open>null\<close>, arrays included.\<close>

lemma object_context_iff:
  "(truthy v \<and> typeof v = ''object'') = (typeof v = ''object'' \<and> v \<noteq> JNull)"
  by (cases v) simp_all

lemma non_null_object_iff:
  "(typeof v = ''object'' \<and> v \<noteq> JNull) = ((\<exists>m. v = JObj m) \<or> (\<exists>xs. v = JArr xs))"
  by (cases v) simp_all

text \<open>
  Claim C6 as stated, at a concrete input: it says that \<^verbatim>\<open>context\<close> is sent on if and only if
  its value is a non-null keyed mapping, any other value being dropped. The array \<^verbatim>\<open>[1]\<close> is an
  ordered sequence, not a keyed mapping, and for the options \<^verbatim>\<open>{context: [1]}\<close> the test of
  line 50 holds (an array is truthy and its \<^verbatim>\<open>typeof\<close> is \<^verbatim>\<open>'object'\<close>): the options sent on
  carry \<^verbatim>\<open>context: [1]\<close>, and so does the one request that \<^verbatim>\<open>run\<close> issues.
\<close>

theorem context_array_forwarded:
  "run_requestOptions (or_empty (JObj [(''context'', JArr [JNum 1])])) =
     Inr (JObj [(''context'', JArr [JNum 1])]) \<and>
   snd (run (sim_Cloud (JObj [(''result'', JNum 7)])) (JStr ''hello'') JNull
          (JObj [(''context'', JArr [JNum 1])]) []) =
     [\<lparr>req_method = ''POST'', req_path = ''functions/hello'', req_body = JNull,
       req_options = JObj [(''context'', JArr [JNum 1])]\<rparr>]"
  by (simp add: run_requestOptions_def or_empty_def run_def sim_Cloud_simps
      DefaultController_simps DefaultController_run_def Let_def sim_encode_def)

text \<open>
  Claim C6, amended. For every value passed to \<^verbatim>\<open>run\<close> as its options, the options handed to
  the controller are an object whose keys are among \<^verbatim>\<open>useMasterKey\<close>, \<^verbatim>\<open>sessionToken\<close> and
  \<^verbatim>\<open>context\<close>, each at most once, so every other option of the caller is dropped. A key
  that is sent carries the caller's own value, and that value is truthy: a key the caller
  left unset (its value is \<^verbatim>\<open>undefined\<close>) is absent, and nothing is sent as a placeholder.
  \<^verbatim>\<open>context\<close> is sent exactly when the caller's value is a keyed mapping or an ordered
  sequence (an array), that is, when its \<^verbatim>\<open>typeof\<close> is \<^verbatim>\<open>'object'\<close> and it is not \<^verbatim>\<open>null\<close>; every
  other value (\<^verbatim>\<open>null\<close>, \<^verbatim>\<open>undefined\<close>, a boolean, a number, a string) is dropped.
\<close>

theorem requestOptions_keys:
  "\<exists>useMasterKey sessionToken context kvs.
     get_prop (or_empty options) ''useMasterKey'' = Inr useMasterKey \<and>
     get_prop (or_empty options) ''sessionToken'' = Inr sessionToken \<and>
     get_prop (or_empty options) ''context'' = Inr context \<and>
     run_requestOptions (or_empty options) = Inr (JObj kvs) \<and>
     (\<forall>s. s \<noteq> [] \<longrightarrow>
        run cm (JStr s) data options log =
          ctl_run (getCloudController cm) (getRESTController cm) s data (JObj kvs) log) \<and>
     distinct (map fst kvs) \<and>
     set (map fst kvs) \<subseteq> {''useMasterKey'', ''sessionToken'', ''context''} \<and>
     (\<forall>k v. (k, v) \<in> set kvs \<longrightarrow> get_prop (or_empty options) k = Inr v \<and> truthy v) \<and>
     (\<forall>k. get_prop (or_empty options) k = Inr JUndefined \<longrightarrow> k \<notin> set (map fst kvs)) \<and>
     (''useMasterKey'' \<in> set (map fst kvs)) = truthy useMasterKey \<and>
     (''sessionToken'' \<in> set (map fst kvs)) = truthy sessionToken \<and>
     (''context'' \<in> set (map fst kvs)) = (typeof context = ''object'' \<and> context \<noteq> JNull) \<and>
     (''context'' \<in> set (map fst kvs)) =
       ((\<exists>m. context = JObj m) \<or> (\<exists>xs. context = JArr xs))"
proof -
  obtain a b c where
    a: "get_prop (or_empty options) ''useMasterKey'' = Inr a" and
    b: "get_prop (or_empty options) ''sessionToken'' = Inr b" and
    c: "get_prop (or_empty options) ''context'' = Inr c"
    using get_prop_truthy [OF truthy_or_empty] by metis
  define kvs where "kvs =
    (if truthy a then [(''useMasterKey'', a)] else []) @
    (if truthy b then [(''sessionToken'', b)] else []) @
    (if truthy c \<and> typeof c = ''object'' then [(''context'', c)] else [])"
  have ro: "run_requestOptions (or_empty options) = Inr (JObj kvs)"
    using a b c by (simp add: run_requestOptions_def kvs_def)
  have run: "\<forall>s. s \<noteq> [] \<longrightarrow>
        run cm (JStr s) data options log =
          ctl_run (getCloudController cm) (getRESTController cm) s data (JObj kvs) log"
    using ro by (simp add: run_def)
  have d: "distinct (map fst kvs)"
    by (auto simp: kvs_def)
  have sub: "set (map fst kvs) \<subseteq> {''useMasterKey'', ''sessionToken'', ''context''}"
    by (auto simp: kvs_def)
  have vals: "\<forall>k v. (k, v) \<in> set kvs \<longrightarrow> get_prop (or_empty options) k = Inr v \<and> truthy v"
    using a b c by (auto simp: kvs_def split: if_splits)
  have unset: "\<forall>k. get_prop (or_empty options) k = Inr JUndefined \<longrightarrow> k \<notin> set (map fst kvs)"
  proof (intro allI impI notI)
    fix k assume u: "get_prop (or_empty options) k = Inr JUndefined"
      and "k \<in> set (map fst kvs)"
    then obtain v where "(k, v) \<in> set kvs" by auto
    with vals have "get_prop (or_empty options) k = Inr v" "truthy v" by blast+
    with u show False by simp
  qed
  have k1: "(''useMasterKey'' \<in> set (map fst kvs)) = truthy a"
    by (auto simp: kvs_def)
  have k2: "(''sessionToken'' \<in> set (map fst kvs)) = truthy b"
    by (auto simp: kvs_def)
  have "(''context'' \<in> set (map fst kvs)) = (truthy c \<and> typeof c = ''object'')"
    by (auto simp: kvs_def)
  then have k3: "(''context'' \<in> set (map fst kvs)) = (typeof c = ''object'' \<and> c \<noteq> JNull)"
    by (simp only: object_context_iff)
  from k3 have k4: "(''context'' \<in> set (map fst kvs)) =
      ((\<exists>m. c = JObj m) \<or> (\<exists>xs. c = JArr xs))"
    by (simp only: non_null_object_iff)
  from a b c ro run d sub vals unset k1 k2 k3 k4 show ?thesis by blast
qed

theorem requestOptions_keys_witness:
  "run_requestOptions (or_empty
     (JObj [(''useMasterKey'', JBool True), (''sessionToken'', JStr ''r:abc''),
            (''context'', JObj [(''a'', JNum 1)]), (''installationId'', JStr ''xyz'')])) =
     Inr (JObj [(''useMasterKey'', JBool True), (''sessionToken'', JStr ''r:abc''),
                (''context'', JObj [(''a'', JNum 1)])]) \<and>
   run_requestOptions (or_empty (JObj [(''context'', JStr ''abc''), (''retry'', JNum 3)])) =
     Inr (JObj []) \<and>
   run_requestOptions (or_empty (JObj [(''context'', JNull)])) = Inr (JObj []) \<and>
   run_requestOptions (or_empty (JObj [(''context'', JArr [JNum 1])])) =
     Inr (JObj [(''context'', JArr [JNum 1])]) \<and>
   run_requestOptions (or_empty JUndefined) = Inr (JObj [])"
  using requestOptions_keys [of
      "JObj [(''useMasterKey'', JBool True), (''sessionToken'', JStr ''r:abc''),
            (''context'', JObj [(''a'', JNum 1)]), (''installationId'', JStr ''xyz'')]"
      "sim_Cloud JNull" JNull "[]"]
  by (simp add: run_requestOptions_def or_empty_def)

text \<open>Removing a key from an object leaves the lookups of the other keys as they were.\<close>

lemma map_of_filter_key:
  "map_of (filter (\<lambda>p. fst p \<noteq> k) kvs) k' = (if k' = k then None else map_of kvs k')"
  by (induction kvs) auto

text \<open>
  Claim C10. \<^verbatim>\<open>useMasterKey\<close> and \<^verbatim>\<open>sessionToken\<close> are sent on by truthiness, not by
  presence: when the caller's options set \<^verbatim>\<open>useMasterKey\<close> to \<^verbatim>\<open>false\<close>, or
  \<^verbatim>\<open>sessionToken\<close> to the empty string, the options sent on do not have that key, and they
  are the very options that are sent on when the key is removed from the caller's options.
\<close>

theorem falsy_options_omitted:
  "(map_of kvs ''useMasterKey'' = Some (JBool False) \<longrightarrow>
      (\<exists>out. run_requestOptions (or_empty (JObj kvs)) = Inr (JObj out) \<and>
         ''useMasterKey'' \<notin> set (map fst out) \<and>
         run_requestOptions (or_empty (JObj (filter (\<lambda>p. fst p \<noteq> ''useMasterKey'') kvs))) =
           Inr (JObj out))) \<and>
   (map_of kvs ''sessionToken'' = Some (JStr []) \<longrightarrow>
      (\<exists>out. run_requestOptions (or_empty (JObj kvs)) = Inr (JObj out) \<and>
         ''sessionToken'' \<notin> set (map fst out) \<and>
         run_requestOptions (or_empty (JObj (filter (\<lambda>p. fst p \<noteq> ''sessionToken'') kvs))) =
           Inr (JObj out)))"
proof (intro conjI impI)
  let ?st = "case map_of kvs ''sessionToken'' of None \<Rightarrow> JUndefined | Some v \<Rightarrow> v"
  let ?ctx = "case map_of kvs ''context'' of None \<Rightarrow> JUndefined | Some v \<Rightarrow> v"
  let ?out = "(if truthy ?st then [(''sessionToken'', ?st)] else []) @
      (if truthy ?ctx \<and> typeof ?ctx = ''object'' then [(''context'', ?ctx)] else [])"
  assume umk: "map_of kvs ''useMasterKey'' = Some (JBool False)"
  have 1: "run_requestOptions (or_empty (JObj kvs)) = Inr (JObj ?out)"
    using umk by (simp add: run_requestOptions_def or_empty_def)
  have 2: "''useMasterKey'' \<notin> set (map fst ?out)"
    by auto
  have 3: "run_requestOptions (or_empty (JObj (filter (\<lambda>p. fst p \<noteq> ''useMasterKey'') kvs))) =
      Inr (JObj ?out)"
    by (simp add: run_requestOptions_def or_empty_def map_of_filter_key)
  from 1 2 3 show "\<exists>out. run_requestOptions (or_empty (JObj kvs)) = Inr (JObj out) \<and>
         ''useMasterKey'' \<notin> set (map fst out) \<and>
         run_requestOptions (or_empty (JObj (filter (\<lambda>p. fst p \<noteq> ''useMasterKey'') kvs))) =
           Inr (JObj out)"
    by blast
next
  let ?umk = "case map_of kvs ''useMasterKey'' of None \<Rightarrow> JUndefined | Some v \<Rightarrow> v"
  let ?ctx = "case map_of kvs ''context'' of None \<Rightarrow> JUndefined | Some v \<Rightarrow> v"
  let ?out = "(if truthy ?umk then [(''useMasterKey'', ?umk)] else []) @
      (if truthy ?ctx \<and> typeof ?ctx = ''object'' then [(''context'', ?ctx)] else [])"
  assume st: "map_of kvs ''sessionToken'' = Some (JStr [])"
  have 1: "run_requestOptions (or_empty (JObj kvs)) = Inr (JObj ?out)"
    using st by (simp add: run_requestOptions_def or_empty_def)
  have 2: "''sessionToken'' \<notin> set (map fst ?out)"
    by auto
  have 3: "run_requestOptions (or_empty (JObj (filter (\<lambda>p. fst p \<noteq> ''sessionToken'') kvs))) =
      Inr (JObj ?out)"
    by (simp add: run_requestOptions_def or_empty_def map_of_filter_key)
  from 1 2 3 show "\<exists>out. run_requestOptions (or_empty (JObj kvs)) = Inr (JObj out) \<and>
         ''sessionToken'' \<notin> set (map fst out) \<and>
         run_requestOptions (or_empty (JObj (filter (\<lambda>p. fst p \<noteq> ''sessionToken'') kvs))) =
           Inr (JObj out)"
    by blast
qed

theorem falsy_options_omitted_witness:
  "run_requestOptions (or_empty
     (JObj [(''useMasterKey'', JBool False), (''sessionToken'', JStr [])])) = Inr (JObj []) \<and>
   run_requestOptions (or_empty (JObj [])) = Inr (JObj [])"
  using falsy_options_omitted [of "[(''useMasterKey'', JBool False), (''sessionToken'', JStr [])]"]
  by (simp add: run_requestOptions_def or_empty_def)

section \<open>The reply of the transport\<close>

text \<open>No index of an array or of a string is spelt \<^verbatim>\<open>result\<close>: an index is all digits.\<close>

lemma index_key_digits: "set (index_key n) \<subseteq> set ''0123456789''"
proof (induction n rule: index_key.induct)
  case (1 n)
  have d: "\<And>m. m < 10 \<Longrightarrow> ''0123456789'' ! m \<in> set ''0123456789''"
    by (rule nth_mem) simp
  show ?case
  proof (cases "n < 10")
    case True
    then show ?thesis using d [of n] by (subst index_key.simps) simp
  next
    case False
    have "n mod 10 < 10" by simp
    with False 1 d [of "n mod 10"] show ?thesis by (subst index_key.simps) simp
  qed
qed

lemma result_not_index: "''result'' \<notin> set (map index_key ns)"
proof
  assume "''result'' \<in> set (map index_key ns)"
  then obtain n where "index_key n = ''result''" by auto
  then have "CHR ''r'' \<in> set (index_key n)" by simp
  with index_key_digits [of n] show False by auto
qed

lemma hasOwnProperty_result_array: "hasOwnProperty (JArr xs) ''result'' = Inr False"
  using result_not_index [of "[0..<length xs]"] by simp

lemma hasOwnProperty_result_string: "hasOwnProperty (JStr s) ''result'' = Inr False"
  using result_not_index [of "[0..<length s]"] by simp

text \<open>
  The test of line 114, by the shape of the reply. It throws on \<^verbatim>\<open>null\<close>, whose \<^verbatim>\<open>typeof\<close> is
  \<^verbatim>\<open>'object'\<close> too, and on an object that has a property of its own named \<^verbatim>\<open>hasOwnProperty\<close>.
\<close>

lemma invalid_response_null:
  "invalid_response JNull = Inl (TypeError ''Cannot convert undefined or null to object'')"
  by (simp add: invalid_response_def)

lemma invalid_response_not_object:
  "typeof res \<noteq> ''object'' \<Longrightarrow> invalid_response res = Inr False"
  by (simp add: invalid_response_def)

lemma invalid_response_array: "invalid_response (JArr xs) = Inr (xs \<noteq> [])"
  by (simp add: invalid_response_def hasOwnProperty_result_array del: hasOwnProperty.simps)

lemma invalid_response_object:
  "''hasOwnProperty'' \<notin> set (map fst kvs) \<Longrightarrow>
   invalid_response (JObj kvs) = Inr (kvs \<noteq> [] \<and> ''result'' \<notin> set (map fst kvs))"
  by (simp add: invalid_response_def)

lemma invalid_response_shadowed:
  "''hasOwnProperty'' \<in> set (map fst kvs) \<Longrightarrow>
   invalid_response (JObj kvs) = Inl (TypeError ''hasOwnProperty is not a function'')"
  by (cases kvs) (auto simp: invalid_response_def)

lemma invalid_response_False_iff:
  "invalid_response res = Inr False \<longleftrightarrow>
     res \<noteq> JNull \<and>
     (typeof res \<noteq> ''object'' \<or> res = JArr [] \<or>
      (\<exists>kvs. res = JObj kvs \<and> ''hasOwnProperty'' \<notin> set (map fst kvs) \<and>
         (kvs = [] \<or> ''result'' \<in> set (map fst kvs))))"
proof (cases res)
  case (JObj kvs)
  then show ?thesis
    by (cases "''hasOwnProperty'' \<in> set (map fst kvs)")
      (auto simp: invalid_response_shadowed invalid_response_object)
qed (simp_all add: invalid_response_null invalid_response_array invalid_response_not_object)

text \<open>What the callback of lines 113 to 122 makes of a reply.\<close>

lemma run_callback_invalid_object:
  assumes "kvs \<noteq> []" and "''result'' \<notin> set (map fst kvs)"
    and "''hasOwnProperty'' \<notin> set (map fst kvs)"
  shows "run_callback decode (JObj kvs) =
    Inl (ParseError INVALID_JSON ''The server returned an invalid response.'')"
  using assms by (simp add: run_callback_def invalid_response_object)

lemma run_callback_invalid_array:
  "xs \<noteq> [] \<Longrightarrow> run_callback decode (JArr xs) =
    Inl (ParseError INVALID_JSON ''The server returned an invalid response.'')"
  by (simp add: run_callback_def invalid_response_array)

lemma run_callback_valid:
  assumes "invalid_response res = Inr False" and "decode res = Inr decoded"
    and "\<And>kvs. decoded = JObj kvs \<Longrightarrow> ''hasOwnProperty'' \<notin> set (map fst kvs)"
  shows "run_callback decode res =
    Inr (case decoded of
           JObj kvs \<Rightarrow> (case map_of kvs ''result'' of Some v \<Rightarrow> v | None \<Rightarrow> JUndefined)
         | _ \<Rightarrow> JUndefined)"
proof (cases decoded)
  case (JObj kvs)
  with assms(3) have ns: "''hasOwnProperty'' \<notin> set (map fst kvs)" by blast
  show ?thesis
  proof (cases "''result'' \<in> set (map fst kvs)")
    case True
    with assms(1,2) JObj ns show ?thesis by (simp add: run_callback_def)
  next
    case False
    then have "map_of kvs ''result'' = None" by (simp add: map_of_eq_None_iff)
    with assms(1,2) JObj ns False show ?thesis by (simp add: run_callback_def)
  qed
next
  case (JArr xs)
  with assms(1,2) show ?thesis
    by (simp add: run_callback_def hasOwnProperty_result_array del: hasOwnProperty.simps)
next
  case (JStr s)
  with assms(1,2) show ?thesis
    by (simp add: run_callback_def hasOwnProperty_result_string del: hasOwnProperty.simps)
qed (use assms(1,2) in \<open>simp_all add: run_callback_def\<close>)

text \<open>The same, seen from \<^verbatim>\<open>run\<close> with the default controller registered.\<close>

lemma run_invalid_reply:
  assumes "s \<noteq> []" and "encode data True = Inr payload"
    and "\<And>req. getRESTController cm req = Resolved res"
    and "res = JObj kvs \<and> kvs \<noteq> [] \<and> ''result'' \<notin> set (map fst kvs) \<and>
           ''hasOwnProperty'' \<notin> set (map fst kvs) \<or>
         res = JArr xs \<and> xs \<noteq> []"
  shows "fst (run (load_Cloud encode decode cm) (JStr s) data options log) =
     Returns (Rejected (ParseError INVALID_JSON ''The server returned an invalid response.''))"
proof -
  obtain ro where ro: "run_requestOptions (or_empty options) = Inr (JObj ro)"
    using run_requestOptions_total by blast
  have "run_callback decode res =
      Inl (ParseError INVALID_JSON ''The server returned an invalid response.'')"
    using assms(4) run_callback_invalid_object run_callback_invalid_array by blast
  moreover have "fst (run (load_Cloud encode decode cm) (JStr s) data options log) =
     Returns (promise_then
       (getRESTController cm
          \<lparr>req_method = ''POST'', req_path = ''functions/'' @ s, req_body = payload,
           req_options = JObj ro\<rparr>)
       (run_callback decode))"
    using assms(1,2) ro by (rule run_default)
  ultimately show ?thesis by (simp add: assms(3))
qed

lemma run_valid_reply:
  assumes "s \<noteq> []" and "encode data True = Inr payload"
    and "\<And>req. getRESTController cm req = Resolved res"
    and "invalid_response res = Inr False" and "decode res = Inr decoded"
    and "\<And>kvs. decoded = JObj kvs \<Longrightarrow> ''hasOwnProperty'' \<notin> set (map fst kvs)"
  shows "fst (run (load_Cloud encode decode cm) (JStr s) data options log) =
     Returns (Resolved (case decoded of
           JObj kvs \<Rightarrow> (case map_of kvs ''result'' of Some v \<Rightarrow> v | None \<Rightarrow> JUndefined)
         | _ \<Rightarrow> JUndefined))"
proof -
  obtain ro where ro: "run_requestOptions (or_empty options) = Inr (JObj ro)"
    using run_requestOptions_total by blast
  have "run_callback decode res =
    Inr (case decoded of
           JObj kvs \<Rightarrow> (case map_of kvs ''result'' of Some v \<Rightarrow> v | None \<Rightarrow> JUndefined)
         | _ \<Rightarrow> JUndefined)"
    using assms(4,5,6) by (rule run_callback_valid)
  moreover have "fst (run (load_Cloud encode decode cm) (JStr s) data options log) =
     Returns (promise_then
       (getRESTController cm
          \<lparr>req_method = ''POST'', req_path = ''functions/'' @ s, req_body = payload,
           req_options = JObj ro\<rparr>)
       (run_callback decode))"
    using assms(1,2) ro by (rule run_default)
  ultimately show ?thesis by (simp add: assms(3))
qed

text \<open>
  The replies the specification names: \<^verbatim>\<open>{foo: 1}\<close> is rejected as an invalid response,
  \<^verbatim>\<open>{}\<close> and \<^verbatim>\<open>undefined\<close> resolve with \<^verbatim>\<open>undefined\<close>.
\<close>

lemma run_reply_foo:
  "fst (run (sim_Cloud (JObj [(''foo'', JNum 1)])) (JStr ''hello'') JNull JUndefined []) =
     Returns (Rejected (ParseError INVALID_JSON ''The server returned an invalid response.''))"
  by (simp add: run_sim_Cloud run_callback_invalid_object)

lemma run_reply_empty:
  "fst (run (sim_Cloud (JObj [])) (JStr ''hello'') JNull JUndefined []) =
     Returns (Resolved JUndefined)"
  by (simp add: run_sim_Cloud run_callback_def invalid_response_object sim_decode_def)

lemma run_reply_undefined:
  "fst (run (sim_Cloud JUndefined) (JStr ''hello'') JNull JUndefined []) =
     Returns (Resolved JUndefined)"
  by (simp add: run_sim_Cloud run_callback_def invalid_response_not_object sim_decode_def)

text \<open>
  Claim C1 says that every reply that is a non-null keyed mapping with at least one key and
  no \<^verbatim>\<open>result\<close> key makes \<^verbatim>\<open>run\<close> reject with the \<^verbatim>\<open>ParseError\<close> of code \<^verbatim>\<open>INVALID_JSON\<close> and
  message \<^verbatim>\<open>The server returned an invalid response.\<close> The reply \<^verbatim>\<open>{"hasOwnProperty": 1}\<close> is
  such a mapping, and there \<^verbatim>\<open>run\<close> rejects with a \<^verbatim>\<open>TypeError\<close> instead: line 114 calls
  \<^verbatim>\<open>res.hasOwnProperty\<close>, which is the reply's own property, the number 1. For the replies
  with no property of that name the claim holds (\<open>run_invalid_reply\<close>).
\<close>

theorem run_reply_own_hasOwnProperty:
  "fst (run (sim_Cloud (JObj [(''hasOwnProperty'', JNum 1)])) (JStr ''hello'') JNull JUndefined []) =
     Returns (Rejected (TypeError ''hasOwnProperty is not a function''))"
  by (simp add: run_sim_Cloud run_callback_def invalid_response_shadowed)

text \<open>
  Claim C2 says that every other reply, a \<^verbatim>\<open>null\<close> reply included, makes \<^verbatim>\<open>run\<close> resolve (with
  the decoded \<^verbatim>\<open>result\<close>, or with \<^verbatim>\<open>undefined\<close>) and never reject. On the reply \<^verbatim>\<open>null\<close> the
  promise is rejected: \<^verbatim>\<open>typeof null === 'object'\<close> holds, so line 114 goes on to
  \<^verbatim>\<open>Object.keys(null)\<close>, which throws a \<^verbatim>\<open>TypeError\<close>. For the replies other than \<^verbatim>\<open>null\<close>
  on which line 114 does not throw, the claim holds (\<open>run_valid_reply\<close> with
  \<open>invalid_response_False_iff\<close>).
\<close>

theorem run_reply_null:
  "fst (run (sim_Cloud JNull) (JStr ''hello'') JNull JUndefined []) =
     Returns (Rejected (TypeError ''Cannot convert undefined or null to object''))"
  by (simp add: run_sim_Cloud run_callback_def invalid_response_null)

text \<open>
  Claim C3. Round trip: with the default controller registered, a non-empty string name,
  a payload \<open>P\<close> that \<^verbatim>\<open>encode(P, true)\<close> turns into \<open>E\<close>, and a transport that resolves with
  \<^verbatim>\<open>{result: E}\<close> (it echoes the body of the request), \<^verbatim>\<open>run\<close> resolves with \<^verbatim>\<open>decode(E)\<close>.
  The decoder is not part of these sources; what is asked of it is that it decodes the
  envelope \<^verbatim>\<open>{result: E}\<close> field by field, into \<^verbatim>\<open>{result: decode(E)}\<close>.
\<close>

theorem run_round_trip:
  assumes "s \<noteq> []"
    and "encode P True = Inr E"
    and "\<And>req. getRESTController cm req = Resolved (JObj [(''result'', req_body req)])"
    and "decode E = Inr D"
    and "decode (JObj [(''result'', E)]) = Inr (JObj [(''result'', D)])"
  shows "fst (run (load_Cloud encode decode cm) (JStr s) P options log) = Returns (Resolved D)"
proof -
  obtain kvs where ro: "run_requestOptions (or_empty options) = Inr (JObj kvs)"
    using run_requestOptions_total by blast
  have inv: "invalid_response (JObj [(''result'', E)]) = Inr False"
    by (simp add: invalid_response_object)
  have "run_callback decode (JObj [(''result'', E)]) = Inr D"
    using run_callback_valid [of "JObj [(''result'', E)]" decode "JObj [(''result'', D)]"]
      inv assms(5) by simp
  moreover have "fst (run (load_Cloud encode decode cm) (JStr s) P options log) =
     Returns (promise_then
       (getRESTController cm
          \<lparr>req_method = ''POST'', req_path = ''functions/'' @ s, req_body = E,
           req_options = JObj kvs\<rparr>)
       (run_callback decode))"
    using assms(1,2) ro by (rule run_default)
  ultimately show ?thesis
    by (simp add: assms(3))
qed

theorem run_round_trip_witness:
  "fst (run echo_Cloud (JStr ''hello'')
     (JObj [(''n'', JNum 1), (''xs'', JArr [JStr ''a'', JBool True])]) JUndefined []) =
   Returns (Resolved (JObj [(''n'', JNum 1), (''xs'', JArr [JStr ''a'', JBool True])]))"
  unfolding echo_Cloud_def
  by (rule run_round_trip [where E = "JObj [(''n'', JNum 1), (''xs'', JArr [JStr ''a'', JBool True])]"])
    (simp_all add: sim_encode_def sim_decode_def getRESTController_def echo_transport_def)

section \<open>The controller indirection\<close>

text \<open>
  Claim C4 as stated, at a concrete registry: it says that all four entry points work
  through the controller read from \<^verbatim>\<open>CoreManager.getCloudController()\<close>, so that registering
  another controller changes what each of them does. Registering two mock controllers
  that answer differently changes the result of \<^verbatim>\<open>getJobsData\<close> and leaves the result of
  \<^verbatim>\<open>getJobStatus\<close> as it was: \<^verbatim>\<open>getJobStatus\<close> never reads the cloud controller.
\<close>

theorem getJobStatus_bypasses_cloud_controller:
  "getJobStatus (setCloudController (mock_controller (JNum 1)) (sim_manager JNull))
      sim_query (JStr ''abc123'') [] =
     (Returns (Rejected (ParseError (OtherCode 101) ''Object not found.'')), []) \<and>
   getJobStatus (setCloudController (mock_controller (JNum 2)) (sim_manager JNull))
      sim_query (JStr ''abc123'') [] =
     (Returns (Rejected (ParseError (OtherCode 101) ''Object not found.'')), []) \<and>
   getJobsData (setCloudController (mock_controller (JNum 1)) (sim_manager JNull)) [] =
     (Returns (Resolved (JNum 1)), []) \<and>
   getJobsData (setCloudController (mock_controller (JNum 2)) (sim_manager JNull)) [] =
     (Returns (Resolved (JNum 2)), [])"
  by (simp add: getJobStatus_def sim_query_def getJobsData_def registry_simps
      mock_controller_def mock_getJobsData_def)

text \<open>
  Claim C4, amended. \<^verbatim>\<open>run\<close>, \<^verbatim>\<open>startJob\<close> (for a non-empty string name) and \<^verbatim>\<open>getJobsData\<close>
  are exactly the call of the corresponding method of whatever controller is registered,
  so registering another controller changes what they do. \<^verbatim>\<open>getJobStatus\<close> is the call
  \<^verbatim>\<open>new ParseQuery('_JobStatus').get(jobStatusId, {useMasterKey: true})\<close> of the query
  collaborator and calls no method of the cloud controller.
\<close>

theorem entry_points_delegate:
  "(s \<noteq> [] \<longrightarrow>
      (\<exists>requestOptions.
         run_requestOptions (or_empty options) = Inr requestOptions \<and>
         run (setCloudController controller cm) (JStr s) data options log =
           ctl_run controller (getRESTController cm) s data requestOptions log) \<and>
      startJob (setCloudController controller cm) (JStr s) data log =
        ctl_startJob controller (getRESTController cm) s data
          (JObj [(''useMasterKey'', JBool True)]) log) \<and>
   getJobsData (setCloudController controller cm) log =
     ctl_getJobsData controller (getRESTController cm)
       (JObj [(''useMasterKey'', JBool True)]) log \<and>
   getJobStatus cm ParseQuery_get jobStatusId log =
     ParseQuery_get cm ''_JobStatus'' jobStatusId (JObj [(''useMasterKey'', JBool True)]) log"
proof -
  obtain kvs where ro: "run_requestOptions (or_empty options) = Inr (JObj kvs)"
    using run_requestOptions_total by blast
  then show ?thesis
    by (simp add: run_def startJob_def getJobsData_def getJobStatus_def registry_simps)
qed

theorem entry_points_delegate_witness:
  "run (setCloudController (mock_controller (JNum 1)) (sim_manager JNull))
      (JStr ''hello'') JNull JUndefined [] = (Returns (Resolved (JNum 1)), []) \<and>
   startJob (setCloudController (mock_controller (JNum 1)) (sim_manager JNull))
      (JStr ''myJob'') JNull [] = (Returns (Resolved (JNum 1)), []) \<and>
   getJobsData (setCloudController (mock_controller (JNum 1)) (sim_manager JNull)) [] =
      (Returns (Resolved (JNum 1)), [])"
  using entry_points_delegate [of "''hello''" JUndefined "mock_controller (JNum 1)"
      "sim_manager JNull" JNull "[]" sim_query "JStr ''abc123''"]
    entry_points_delegate [of "''myJob''" JUndefined "mock_controller (JNum 1)"
      "sim_manager JNull" JNull "[]" sim_query "JStr ''abc123''"]
  by (auto simp: mock_controller_def mock_run_def mock_getJobsData_def)

end
